theory Spec2Isabelle
  imports Complex_Main
begin

section \<open>Memory model\<close>

text \<open>
  The K-Means code works on raw C arrays (\<^verbatim>\<open>double *\<close>, \<^verbatim>\<open>int *\<close>) indexed by
  \<^verbatim>\<open>int\<close>. An array is a list; an index is an \<open>int\<close>, so that the value \<open>-1\<close> that the
  code stores as "no cluster" is an index like any other. A read or write outside the
  array is undefined behaviour in C: the model stops there with \<open>OutOfBounds\<close>.
  A C \<^verbatim>\<open>int\<close> is an unbounded integer here: the index arithmetic (\<^verbatim>\<open>ii*k + jj\<close>) is taken
  not to overflow. The arrays passed to a function are taken not to overlap.

  A \<^verbatim>\<open>double\<close> is a \<open>real\<close>: sums, products and quotients are exact. The reals have no
  infinity and no NaN, so a division whose divisor is the member count zero is not
  evaluated in the model: it stops with \<open>DivisionByZero\<close>. Output to the terminal
  (\<^verbatim>\<open>printf\<close>, \<^verbatim>\<open>cout\<close>) is left out; where an array element is read only to be printed,
  the read is kept.
\<close>

datatype error = OutOfBounds | DivisionByZero

definition bindE :: "error + 'a \<Rightarrow> ('a \<Rightarrow> error + 'b) \<Rightarrow> error + 'b" where
  "bindE m f = (case m of Inl e \<Rightarrow> Inl e | Inr v \<Rightarrow> f v)"

definition rd :: "'a list \<Rightarrow> int \<Rightarrow> error + 'a" where
  "rd a i = (if 0 \<le> i \<and> i < int (length a) then Inr (a ! nat i) else Inl OutOfBounds)"

definition wr :: "'a list \<Rightarrow> int \<Rightarrow> 'a \<Rightarrow> error + 'a list" where
  "wr a i v = (if 0 \<le> i \<and> i < int (length a) then Inr (a[nat i := v]) else Inl OutOfBounds)"

text \<open>\<^verbatim>\<open>for (int ii = lo; ii < hi; ii++) body\<close>, the body working on a state.\<close>

function for_loop :: "int \<Rightarrow> int \<Rightarrow> (int \<Rightarrow> 's \<Rightarrow> error + 's) \<Rightarrow> 's \<Rightarrow> error + 's" where
  "for_loop ii hi body s =
     (if ii < hi
      then (case body ii s of Inl e \<Rightarrow> Inl e | Inr s' \<Rightarrow> for_loop (ii + 1) hi body s')
      else Inr s)"
  by pat_completeness auto
termination
  by (relation "measure (\<lambda>(ii, hi, body, s). nat (hi - ii))") auto

declare for_loop.simps [simp del]

section \<open>Support functions of K-Means\<close>

text \<open>\<^verbatim>\<open>#define sqr(x) ((x)*(x))\<close>\<close>

definition sqr :: "real \<Rightarrow> real" where
  "sqr x = x * x"

text \<open>
  The parameter \<^verbatim>\<open>dim\<close> of the source is written \<open>dm\<close> throughout, \<open>dim\<close> being a
  constant of the library.
  \<^verbatim>\<open>euclid_distance(dim, p1, p2)\<close> is called with pointers into the middle of an array
  (\<^verbatim>\<open>&X[ii*dim]\<close>): the model passes the array and the offset.
\<close>

definition euclid_distance :: "int \<Rightarrow> real list \<Rightarrow> int \<Rightarrow> real list \<Rightarrow> int \<Rightarrow> error + real" where
  "euclid_distance dm p1 o1 p2 o2 =
     for_loop 0 dm
       (\<lambda>ii distance_sq_sum.
          bindE (rd p1 (o1 + ii)) (\<lambda>a.
          bindE (rd p2 (o2 + ii)) (\<lambda>b.
          Inr (distance_sq_sum + sqr (a - b)))))
       0"

definition all_distances ::
  "int \<Rightarrow> int \<Rightarrow> int \<Rightarrow> real list \<Rightarrow> real list \<Rightarrow> real list \<Rightarrow> error + real list" where
  "all_distances dm n k X centroid distance_out =
     for_loop 0 n
       (\<lambda>ii d1. for_loop 0 k
          (\<lambda>jj d.
             bindE (euclid_distance dm X (ii * dm) centroid (jj * dm)) (\<lambda>v.
             wr d (ii * k + jj) v))
          d1)
       distance_out"

definition calc_total_distance ::
  "int \<Rightarrow> int \<Rightarrow> int \<Rightarrow> real list \<Rightarrow> real list \<Rightarrow> int list \<Rightarrow> error + real" where
  "calc_total_distance dm n k X centroids cluster_assignment_index =
     for_loop 0 n
       (\<lambda>ii tot_D.
          bindE (rd cluster_assignment_index ii) (\<lambda>active_cluster.
          if active_cluster \<noteq> - 1
          then bindE (euclid_distance dm X (ii * dm) centroids (active_cluster * dm))
                 (\<lambda>v. Inr (tot_D + v))
          else Inr tot_D))
       0"

text \<open>The parameter \<open>X\<close> of \<^verbatim>\<open>choose_all_clusters_from_distances\<close> is never used.\<close>

definition choose_all_clusters_from_distances ::
  "int \<Rightarrow> int \<Rightarrow> int \<Rightarrow> real list \<Rightarrow> real list \<Rightarrow> int list \<Rightarrow> error + int list" where
  "choose_all_clusters_from_distances dm n k X distance_array cluster_assignment_index =
     for_loop 0 n
       (\<lambda>ii assignment.
          bindE (for_loop 0 k
                   (\<lambda>jj (best_index, closest_distance).
                      bindE (rd distance_array (ii * k + jj)) (\<lambda>cur_distance.
                      if cur_distance < closest_distance
                      then Inr (jj, cur_distance)
                      else Inr (best_index, closest_distance)))
                   (- 1, 100000))
            (\<lambda>(best_index, closest_distance). wr assignment ii best_index))
       cluster_assignment_index"

definition get_cluster_member_count :: "int \<Rightarrow> int \<Rightarrow> int list \<Rightarrow> int list \<Rightarrow> error + int list" where
  "get_cluster_member_count n k cluster_assignment_index cluster_member_count =
     bindE (for_loop 0 k (\<lambda>ii cmc. wr cmc ii 0) cluster_member_count) (\<lambda>cmc0.
     for_loop 0 n
       (\<lambda>ii cmc.
          bindE (rd cluster_assignment_index ii) (\<lambda>c.
          bindE (rd cmc c) (\<lambda>m.
          wr cmc c (m + 1))))
       cmc0)"

text \<open>
  \<^verbatim>\<open>calc_cluster_centroids\<close>: the first loop prints the first \<open>k\<close> entries of the centroid
  array; the second writes \<open>0\<close> to the one entry \<open>dim*k\<close>, \<open>k\<close> times (the statements that
  would clear the sums are commented out in the source); the third adds every
  point to the entry of its cluster; the last recounts the members and divides.
  \<^verbatim>\<open>carray\<close> is a local array of three \<^verbatim>\<open>int\<close>s, not initialised: every entry that is read
  has been written by \<^verbatim>\<open>get_cluster_member_count\<close> before, so its first content does not
  matter, and the model starts it at zero.
\<close>

definition calc_cluster_centroids ::
  "int \<Rightarrow> int \<Rightarrow> int \<Rightarrow> real list \<Rightarrow> int list \<Rightarrow> real list \<Rightarrow> error + real list" where
  "calc_cluster_centroids dm n k X cluster_assignment_index new_cluster_centroid =
     bindE (for_loop 0 k (\<lambda>b u. bindE (rd new_cluster_centroid b) (\<lambda>_. Inr u)) ()) (\<lambda>_.
     bindE (for_loop 0 k (\<lambda>ii c. wr c (dm * k) 0) new_cluster_centroid) (\<lambda>c1.
     bindE (for_loop 0 n
              (\<lambda>ii c.
                 bindE (rd cluster_assignment_index ii) (\<lambda>active_cluster.
                 for_loop 0 dm
                   (\<lambda>jj c'.
                      bindE (rd c' (active_cluster * dm + jj)) (\<lambda>old.
                      bindE (rd X (ii * dm + jj)) (\<lambda>x.
                      wr c' (active_cluster * dm + jj) (old + x))))
                   c))
              c1) (\<lambda>c2.
     bindE (for_loop 0 k
              (\<lambda>ii (c, carray).
                 bindE (get_cluster_member_count n k cluster_assignment_index carray) (\<lambda>cmc.
                 bindE (rd cmc ii) (\<lambda>_.
                 bindE (for_loop 0 dm
                          (\<lambda>jj c'.
                             bindE (rd c' (ii * dm + jj)) (\<lambda>old.
                             bindE (rd cmc ii) (\<lambda>cnt.
                             if cnt = 0 then Inl DivisionByZero
                             else wr c' (ii * dm + jj) (old / real_of_int cnt))))
                          c)
                   (\<lambda>c''. Inr (c'', cmc)))))
              (c2, [0, 0, 0]))
       (\<lambda>(c3, carray). Inr c3))))"

text \<open>\<^verbatim>\<open>#define MAX_CLUSTERS 16\<close>\<close>

definition MAX_CLUSTERS :: nat where
  "MAX_CLUSTERS = 16"

text \<open>\<^verbatim>\<open>cluster_diag\<close> only prints; its array accesses are kept.\<close>

definition cluster_diag ::
  "int \<Rightarrow> int \<Rightarrow> int \<Rightarrow> real list \<Rightarrow> int list \<Rightarrow> real list \<Rightarrow> error + unit" where
  "cluster_diag dm n k X cluster_assignment_index cluster_centroid =
     bindE (get_cluster_member_count n k cluster_assignment_index (replicate MAX_CLUSTERS 0))
       (\<lambda>cluster_member_count.
     for_loop 0 k
       (\<lambda>ii u.
          bindE (rd cluster_member_count ii) (\<lambda>_.
          bindE (rd cluster_centroid (ii * dm + 0)) (\<lambda>_. Inr u)))
       ())"

definition copy_assignment_array :: "int \<Rightarrow> int list \<Rightarrow> int list \<Rightarrow> error + int list" where
  "copy_assignment_array n src tgt =
     for_loop 0 n (\<lambda>ii t. bindE (rd src ii) (\<lambda>v. wr t ii v)) tgt"

definition assignment_change_count :: "int \<Rightarrow> int list \<Rightarrow> int list \<Rightarrow> error + int" where
  "assignment_change_count n a b =
     for_loop 0 n
       (\<lambda>ii change_count.
          bindE (rd a ii) (\<lambda>x.
          bindE (rd b ii) (\<lambda>y.
          if x \<noteq> y then Inr (change_count + 1) else Inr change_count)))
       0"

section \<open>K-Means\<close>

text \<open>
  The local variables of \<^verbatim>\<open>kmeans\<close> that live across iterations. \<open>cluster_centroid\<close> is
  what the pointer of that name points to once the function has redirected it to its
  local \<^verbatim>\<open>array\<close>. \<^verbatim>\<open>point_move_score\<close> is allocated and freed but never accessed.
\<close>

record kmeans_state =
  cluster_centroid :: "real list"
  dist :: "real list"
  cluster_assignment_cur :: "int list"
  cluster_assignment_prev :: "int list"
  prev_totD :: real
  batch_iteration :: int

text \<open>How one pass through the body of the \<^verbatim>\<open>while\<close> loop ends.\<close>

datatype step = NoImprovement kmeans_state | NoChange kmeans_state | Continue kmeans_state

definition kmeans_body :: "int \<Rightarrow> real list \<Rightarrow> int \<Rightarrow> int \<Rightarrow> kmeans_state \<Rightarrow> error + step" where
  "kmeans_body dm X n k s =
     bindE (cluster_diag dm n k X (cluster_assignment_cur s) (cluster_centroid s)) (\<lambda>_.
     bindE (calc_cluster_centroids dm n k X (cluster_assignment_cur s) (cluster_centroid s)) (\<lambda>c.
     bindE (calc_total_distance dm n k X c (cluster_assignment_cur s)) (\<lambda>totD.
     if totD > prev_totD s
     then
       bindE (copy_assignment_array n (cluster_assignment_prev s) (cluster_assignment_cur s)) (\<lambda>cur.
       bindE (calc_cluster_centroids dm n k X cur c) (\<lambda>c'.
       Inr (NoImprovement (s\<lparr>cluster_centroid := c', cluster_assignment_cur := cur\<rparr>))))
     else
       bindE (copy_assignment_array n (cluster_assignment_cur s) (cluster_assignment_prev s)) (\<lambda>prev.
       bindE (all_distances dm n k X c (dist s)) (\<lambda>d.
       bindE (choose_all_clusters_from_distances dm n k d X (cluster_assignment_cur s)) (\<lambda>cur.
       bindE (assignment_change_count n cur prev) (\<lambda>change_count.
       if change_count = 0
       then Inr (NoChange (s\<lparr>cluster_centroid := c, dist := d,
                                cluster_assignment_cur := cur, cluster_assignment_prev := prev\<rparr>))
       else Inr (Continue (s\<lparr>cluster_centroid := c, dist := d,
                                cluster_assignment_cur := cur, cluster_assignment_prev := prev,
                                prev_totD := totD,
                                batch_iteration := batch_iteration s + 1\<rparr>)))))))))"

lemma kmeans_body_Continue:
  "kmeans_body dm X n k s = Inr (Continue s') \<Longrightarrow> batch_iteration s' = batch_iteration s + 1"
  by (auto simp: kmeans_body_def bindE_def split: sum.splits if_splits)

text \<open>
  \<^verbatim>\<open>while (batch_iteration < 100.) { ... }\<close>. The first component of the result counts the
  passes through the body, whichever way a pass ends.
\<close>

function kmeans_loop ::
  "int \<Rightarrow> real list \<Rightarrow> int \<Rightarrow> int \<Rightarrow> kmeans_state \<Rightarrow> nat \<times> (error + kmeans_state)" where
  "kmeans_loop dm X n k s =
     (if batch_iteration s < 100
      then (case kmeans_body dm X n k s of
              Inl e \<Rightarrow> (1, Inl e)
            | Inr (NoImprovement s') \<Rightarrow> (1, Inr s')
            | Inr (NoChange s') \<Rightarrow> (1, Inr s')
            | Inr (Continue s') \<Rightarrow>
                (case kmeans_loop dm X n k s' of (passes, r) \<Rightarrow> (passes + 1, r)))
      else (0, Inr s))"
  by pat_completeness auto
termination
  by (relation "measure (\<lambda>(dm, X, n, k, s). nat (100 - batch_iteration s))")
     (auto dest: kmeans_body_Continue)

declare kmeans_loop.simps [simp del]

text \<open>
  The two places a centroid pointer of \<^verbatim>\<open>kmeans\<close> can point to: the memory the caller
  passed as \<^verbatim>\<open>cluster_centroid\<close>, and the local \<^verbatim>\<open>double array [3] = {0, 5, 10}\<close>.
\<close>

datatype region = Caller_memory | Local_array

definition array :: "real list" where
  "array = [0, 5, 10]"

text \<open>
  The setup of \<^verbatim>\<open>kmeans\<close> before the loop, on the centroids that \<^verbatim>\<open>cluster_centroid\<close>
  points to. The arrays from \<^verbatim>\<open>malloc\<close> are not initialised; every entry that is read
  has been written before, and the model starts them at zero. (A failed \<^verbatim>\<open>malloc\<close> is
  not modelled.)
\<close>

definition kmeans_setup :: "int \<Rightarrow> real list \<Rightarrow> int \<Rightarrow> int \<Rightarrow> real list \<Rightarrow> error + kmeans_state" where
  "kmeans_setup dm X n k centroid =
     bindE (all_distances dm n k X centroid (replicate (nat (n * k)) 0)) (\<lambda>d.
     bindE (choose_all_clusters_from_distances dm n k X d (replicate (nat n) 0)) (\<lambda>cur.
     bindE (copy_assignment_array n cur (replicate (nat n) 0)) (\<lambda>prev.
     Inr \<lparr>cluster_centroid = centroid, dist = d,
          cluster_assignment_cur = cur, cluster_assignment_prev = prev,
          prev_totD = 10000, batch_iteration = 0\<rparr>)))"

text \<open>
  The setup and the loop: the number of passes through the loop body (none when the
  setup already fails) and the local variables after the loop.
\<close>

definition kmeans_run ::
  "int \<Rightarrow> real list \<Rightarrow> int \<Rightarrow> int \<Rightarrow> real list \<Rightarrow> nat \<times> (error + kmeans_state)" where
  "kmeans_run dm X n k centroid =
     (case kmeans_setup dm X n k centroid of
        Inl e \<Rightarrow> (0, Inl e)
      | Inr s0 \<Rightarrow> kmeans_loop dm X n k s0)"

text \<open>
  \<^verbatim>\<open>kmeans\<close>. The memory holds the centroids of the caller and the local array; the
  statement \<^verbatim>\<open>cluster_centroid = array\<close> makes the pointer, which came pointing to the
  caller's memory, point to the local array. Setup and loop work on what the pointer
  points to, and what they leave is in the memory at that place. The caller sees the
  memory behind the two pointers it passed: its centroids, and
  \<^verbatim>\<open>cluster_assignment_final\<close>, to which the assignment found is copied.
\<close>

record kmeans_result =
  caller_centroid :: "real list"
  assignment_final :: "int list"

definition kmeans ::
  "int \<Rightarrow> real list \<Rightarrow> int \<Rightarrow> int \<Rightarrow> real list \<Rightarrow> int list \<Rightarrow> error + kmeans_result" where
  "kmeans dm X n k cluster_centroid_arg cluster_assignment_final =
     (let memory = (\<lambda>r. case r of Caller_memory \<Rightarrow> cluster_centroid_arg | Local_array \<Rightarrow> array);
          pointer = Caller_memory;
          pointer = Local_array
      in
      bindE (snd (kmeans_run dm X n k (memory pointer))) (\<lambda>s.
      bindE (copy_assignment_array n (cluster_assignment_cur s) cluster_assignment_final) (\<lambda>final.
      Inr \<lparr>caller_centroid = (memory(pointer := cluster_centroid s)) Caller_memory,
           assignment_final = final\<rparr>)))"

text \<open>The number of passes through the loop body in a call of \<^verbatim>\<open>kmeans\<close>.\<close>

definition kmeans_passes :: "int \<Rightarrow> real list \<Rightarrow> int \<Rightarrow> int \<Rightarrow> nat" where
  "kmeans_passes dm X n k = fst (kmeans_run dm X n k array)"

section \<open>The matrix class\<close>

text \<open>
  \<^verbatim>\<open>Matrix.h\<close> declares the class and its error classes; the member functions are
  defined in a file that is not among the sources. The record has the data members of
  the class that hold the matrix: its columns and the two counts. (The members
  \<^verbatim>\<open>entries\<close> and \<^verbatim>\<open>changed\<close> are a cache of the same entries as one array.)
\<close>

datatype matrix_error = SizeError | LapackError

record Matrix =
  columns :: "real list list"
  numRows :: nat
  numCols :: nat

text \<open>
  Modelled from the spec: the bodies of \<^verbatim>\<open>rowCount\<close>, \<^verbatim>\<open>colCount\<close> and \<^verbatim>\<open>getValue\<close> are
  missing from the sources; the header documents them as the number of rows, the number
  of columns, and the element in row \<open>row\<close> and column \<open>column\<close>, counted from 0.
\<close>

definition rowCount :: "Matrix \<Rightarrow> nat" where
  "rowCount A = numRows A"

definition colCount :: "Matrix \<Rightarrow> nat" where
  "colCount A = numCols A"

definition getValue :: "Matrix \<Rightarrow> nat \<Rightarrow> nat \<Rightarrow> real" where
  "getValue A row column = columns A ! column ! row"

text \<open>
  Modelled from the spec: the body of \<^verbatim>\<open>Matrix::dot\<close> is missing from the sources. The
  header documents it as the matrix product \<open>this * B\<close>; the specification says that
  \<open>dot(A, B)\<close> returns an \<open>r(A) \<times> c(B)\<close> matrix. Entry \<open>(i, j)\<close> of the product is the sum
  of \<open>A(i, l) * B(l, j)\<close> over the columns \<open>l\<close> of \<open>A\<close>.
\<close>

definition matrix_product :: "Matrix \<Rightarrow> Matrix \<Rightarrow> Matrix" where
  "matrix_product A B =
     \<lparr>columns = map (\<lambda>j. map (\<lambda>i. \<Sum>l\<leftarrow>[0..<colCount A]. getValue A i l * getValue B l j)
                              [0..<rowCount A])
                    [0..<colCount B],
      numRows = rowCount A,
      numCols = colCount B\<rparr>"

text \<open>
  Modelled from the spec: \<open>dot(A, B)\<close> fails with a SizeError unless the column count of
  \<open>A\<close> equals the row count of \<open>B\<close>, and, returning a new matrix, does not mutate its
  operands. A call yields its outcome together with the two operands as they are after
  the call.
\<close>

definition dot :: "Matrix \<Rightarrow> Matrix \<Rightarrow> (matrix_error + Matrix) \<times> Matrix \<times> Matrix" where
  "dot A B =
     (if colCount A \<noteq> rowCount B then (Inl SizeError, A, B)
      else (Inr (matrix_product A B), A, B))"

text \<open>A matrix of \<open>r\<close> rows and \<open>c\<close> columns: the counts, and the shape of the stored columns.\<close>

definition shaped :: "Matrix \<Rightarrow> nat \<Rightarrow> nat \<Rightarrow> bool" where
  "shaped C r c =
     (rowCount C = r \<and> colCount C = c \<and> length (columns C) = c \<and>
      list_all (\<lambda>col. length col = r) (columns C))"

text \<open>The two operands of scenario 4 of the specification, and one that fits the second.\<close>

definition M32 :: Matrix where
  "M32 = \<lparr>columns = [[1, 2, 3], [4, 5, 6]], numRows = 3, numCols = 2\<rparr>"

definition M34 :: Matrix where
  "M34 = \<lparr>columns = [[1, 0, 0], [0, 1, 0], [0, 0, 1], [1, 1, 1]], numRows = 3, numCols = 4\<rparr>"

definition M23 :: Matrix where
  "M23 = \<lparr>columns = [[1, 4], [2, 5], [3, 6]], numRows = 2, numCols = 3\<rparr>"

section \<open>The loop of K-Means\<close>

lemma kmeans_body_accepts_no_increase:
  "kmeans_body dm X n k s = Inr (Continue s') \<Longrightarrow> prev_totD s' \<le> prev_totD s"
  by (auto simp: kmeans_body_def bindE_def split: sum.splits if_splits)

lemma kmeans_loop_passes:
  "fst (kmeans_loop dm X n k s) \<le> nat (100 - batch_iteration s)"
proof (induction dm X n k s rule: kmeans_loop.induct)
  case (1 dm X n k s)
  show ?case
  proof (cases "batch_iteration s < 100")
    case False
    then show ?thesis by (simp add: kmeans_loop.simps [of dm X n k s])
  next
    case True
    show ?thesis
    proof (cases "kmeans_body dm X n k s")
      case (Inl e)
      with True show ?thesis by (simp add: kmeans_loop.simps [of dm X n k s])
    next
      case (Inr st)
      show ?thesis
      proof (cases st)
        case (NoImprovement s')
        with True Inr show ?thesis by (simp add: kmeans_loop.simps [of dm X n k s])
      next
        case (NoChange s')
        with True Inr show ?thesis by (simp add: kmeans_loop.simps [of dm X n k s])
      next
        case (Continue s')
        have b: "batch_iteration s' = batch_iteration s + 1"
          using Inr Continue kmeans_body_Continue by simp
        have ih: "fst (kmeans_loop dm X n k s') \<le> nat (100 - batch_iteration s')"
          using "1.IH" True Inr Continue by simp
        have "fst (kmeans_loop dm X n k s) = fst (kmeans_loop dm X n k s') + 1"
          using True Inr Continue
          by (simp add: kmeans_loop.simps [of dm X n k s] split: prod.splits)
        with ih b True show ?thesis by simp
      qed
    qed
  qed
qed

lemma kmeans_setup_batch_iteration:
  "kmeans_setup dm X n k centroid = Inr s0 \<Longrightarrow> batch_iteration s0 = 0"
  by (auto simp: kmeans_setup_def bindE_def split: sum.splits)

text \<open>
  Claim C5. For every input (any \<open>n\<close>, \<open>k\<close>, \<open>dim\<close> and any data) the main loop of K-Means
  makes at most 100 passes through its body, whichever way the passes end: the loop
  function is total, its termination being proved from the counter \<open>batch_iteration\<close>, and
  the count of its passes is bounded by the cap.
\<close>

theorem kmeans_terminates_within_cap: "kmeans_passes dm X n k \<le> 100"
proof (cases "kmeans_setup dm X n k array")
  case (Inl e)
  then show ?thesis by (simp add: kmeans_passes_def kmeans_run_def)
next
  case (Inr s0)
  then show ?thesis
    using kmeans_loop_passes [of dm X n k s0] kmeans_setup_batch_iteration [OF Inr]
    by (simp add: kmeans_passes_def kmeans_run_def)
qed

text \<open>
  Claim C10. The outcome of \<^verbatim>\<open>kmeans\<close> does not depend on the centroids the caller
  passes: for two values \<open>c1\<close>, \<open>c2\<close> of that argument, all else equal, the final
  assignment (or the failure) is the same, the centroids in use being the local array
  \<open>{0, 5, 10}\<close>; and whenever the call returns, the memory the caller passed still holds
  \<open>c1\<close>: the final centroids are never written to it.
\<close>

theorem kmeans_ignores_centroid_argument:
  "map_sum id assignment_final (kmeans dm X n k c1 out) =
   map_sum id assignment_final (kmeans dm X n k c2 out) \<and>
   map_sum id caller_centroid (kmeans dm X n k c1 out) =
   map_sum id (\<lambda>r. c1) (kmeans dm X n k c1 out)"
  by (simp add: kmeans_def bindE_def Let_def split: sum.splits)

text \<open>A call that returns: three points on a line, one cluster.\<close>

lemma kmeans_returns_example:
  "kmeans 1 [1, 2, 3] 3 1 [7, 7] [9, 9, 9] =
     Inr \<lparr>caller_centroid = [7, 7], assignment_final = [0, 0, 0]\<rparr>"
  by code_simp

section \<open>The steps of one iteration\<close>

text \<open>
  Claim C1 (every point is assigned to its nearest centroid in every iteration) does not
  hold of the code. Inside the loop the call is
  \<^verbatim>\<open>choose_all_clusters_from_distances(dim, n, k, dist, X, cluster_assignment_cur)\<close>:
  the data \<open>X\<close> stands where the distance array is expected (the call of the setup, before
  the loop, passes \<open>X, dist\<close>). The entry \<open>X[ii*k + jj]\<close> is then compared as if it were the
  distance of point \<open>ii\<close> to centroid \<open>jj\<close>.

  Take \<open>dim = 1\<close>, \<open>n = 3\<close>, \<open>k = 2\<close> and \<open>X\<close> pointing to six doubles \<open>1, 2, 6, 0, 0, 0\<close>, of which
  the first three are the points. The first pass through the body ends with centroids
  \<open>3/2\<close> and \<open>11\<close>; the distances of point 1 (the value \<open>2\<close>) to them are \<open>1/4\<close> and \<open>81\<close>, yet the
  point is assigned to cluster 1, because \<open>X[2] = 6\<close> and \<open>X[3] = 0\<close> were compared.
\<close>

theorem kmeans_reassigns_from_data_not_distances:
  "bindE (kmeans_setup 1 [1, 2, 6, 0, 0, 0] 3 2 array) (kmeans_body 1 [1, 2, 6, 0, 0, 0] 3 2) =
     Inr (Continue
       \<lparr>cluster_centroid = [3 / 2, 11, 0],
        dist = [1 / 4, 100, 1 / 4, 81, 81 / 4, 25],
        cluster_assignment_cur = [0, 1, 0],
        cluster_assignment_prev = [0, 0, 1],
        prev_totD = 51 / 2,
        batch_iteration = 1\<rparr>)"
  by code_simp

text \<open>
  When \<open>X\<close> holds the \<open>n * dim\<close> points and nothing more, the same statement reads past the
  end of \<open>X\<close> as soon as \<open>k\<close> exceeds \<open>dim\<close>.
\<close>

lemma kmeans_reassign_reads_past_data:
  "kmeans 1 [1, 6] 2 2 [0, 5] [0, 0] = Inl OutOfBounds"
  by code_simp

text \<open>
  Claim C2 (the accepted total distances never increase, and a pass whose total distance
  exceeds the previous one rolls back to the previous assignment and centroids and stops)
  does not hold of the code in its part on the centroids. On the input above the first
  pass is accepted with centroids \<open>3/2\<close>, \<open>11\<close> and total distance \<open>51/2\<close>; the second pass
  computes the total distance \<open>1077/8\<close>, which is larger, restores the assignment
  \<open>0, 0, 1\<close> and stops; but the centroids it leaves are \<open>29/8\<close> and \<open>19\<close>, since
  \<^verbatim>\<open>calc_cluster_centroids\<close> adds the points to the centroids it finds.
\<close>

theorem kmeans_rollback_leaves_other_centroids:
  "kmeans_run 1 [1, 2, 6, 0, 0, 0] 3 2 array =
     (2, Inr
       \<lparr>cluster_centroid = [29 / 8, 19, 0],
        dist = [1 / 4, 100, 1 / 4, 81, 81 / 4, 25],
        cluster_assignment_cur = [0, 0, 1],
        cluster_assignment_prev = [0, 0, 1],
        prev_totD = 51 / 2,
        batch_iteration = 1\<rparr>)"
  by code_simp

text \<open>
  Claim C3 (after the update, the centroid of a cluster with members is the mean of its
  members) does not hold of the code: the sums are not cleared before the points are
  added, so the update yields (old centroid + sum of the members) / count. With the
  points \<open>1\<close> and \<open>6\<close> in clusters 0 and 1 and the centroids \<open>0, 5\<close> of the setup, the centroid
  of cluster 1, whose only member is \<open>6\<close>, becomes \<open>11\<close>.
\<close>

theorem calc_cluster_centroids_adds_to_old_centroid:
  "calc_cluster_centroids 1 2 2 [1, 6] [0, 1] [0, 5, 10] = Inr [1, 11, 0]"
  by code_simp

text \<open>
  Claim C4 (the update never divides by a member count of zero) does not hold of the
  code: an empty cluster is reported and then divided by its count all the same. With
  one point \<open>1\<close> and two clusters, cluster 1 is empty and the update reaches the division
  of its sum by zero.
\<close>

theorem calc_cluster_centroids_divides_by_zero_count:
  "calc_cluster_centroids 1 1 2 [1] [0] [0, 5, 10] = Inl DivisionByZero"
  by code_simp

text \<open>The same division is reached from \<^verbatim>\<open>kmeans\<close> itself.\<close>

lemma kmeans_divides_by_zero_count:
  "kmeans 1 [1] 1 2 [0, 5] [0] = Inl DivisionByZero"
  by code_simp

text \<open>
  On an input that holds the points and nothing more, a pass can exceed only the first
  value of \<^verbatim>\<open>prev_totD\<close>, the constant \<open>10000\<close>. With the points \<open>0\<close> and \<open>300\<close> in one
  cluster the first pass computes the centroid \<open>150\<close> and the total distance \<open>45000\<close>,
  keeps the assignment and stops, leaving the centroid \<open>225\<close>.
\<close>

lemma kmeans_first_pass_rollback:
  "kmeans_run 1 [0, 300] 2 1 array =
     (1, Inr
       \<lparr>cluster_centroid = [225, 0, 10],
        dist = [0, 90000],
        cluster_assignment_cur = [0, 0],
        cluster_assignment_prev = [0, 0],
        prev_totD = 10000,
        batch_iteration = 0\<rparr>)"
  by code_simp

section \<open>The matrix product\<close>

lemma shaped_matrix_product: "shaped (matrix_product A B) (rowCount A) (colCount B)"
  by (simp add: shaped_def matrix_product_def rowCount_def colCount_def list_all_iff)

text \<open>
  Claim C9. When the column count of \<open>A\<close> differs from the row count of \<open>B\<close>, \<open>dot(A, B)\<close>
  fails with a SizeError and both operands are as before; when they agree, it returns
  the product, a matrix of \<open>r(A)\<close> rows and \<open>c(B)\<close> columns, the operands again as before.
\<close>

theorem dot_size_contract:
  "dot A B =
     (if colCount A \<noteq> rowCount B then (Inl SizeError, A, B)
      else (Inr (matrix_product A B), A, B)) \<and>
   shaped (matrix_product A B) (rowCount A) (colCount B)"
  by (simp add: dot_def shaped_matrix_product)

text \<open>Scenario 4 of the specification: a \<open>3 \<times> 2\<close> and a \<open>3 \<times> 4\<close> matrix.\<close>

theorem dot_size_contract_witness:
  "colCount M32 \<noteq> rowCount M34 \<and> dot M32 M34 = (Inl SizeError, M32, M34)"
proof -
  have h: "colCount M32 \<noteq> rowCount M34"
    by (simp add: M32_def M34_def rowCount_def colCount_def)
  show ?thesis
    using h dot_size_contract [of M32 M34] by simp
qed

lemma dot_example:
  "dot M23 M34 =
     (Inr \<lparr>columns = [[1, 4], [2, 5], [3, 6], [6, 15]], numRows = 2, numCols = 4\<rparr>, M23, M34)"
  by code_simp

end
